theory Spec2Isabelle
  imports Complex_Main
begin

section \<open>Anchor positioning plugins: a shallow embedding\<close>

text \<open>
  The repository holds several drafts of one small plugin that positions a floating
  element next to a reference element:
  \<^item> \<^verbatim>\<open>dist/anchor.js\<close>: the geometry engine \<^verbatim>\<open>FloatingUICore.computePosition\<close>;
  \<^item> \<^verbatim>\<open>dist/src/anchor.js\<close>: the resolver \<^verbatim>\<open>parseAnchorConfig\<close>, the CSS-native
    positioner and a fallback positioner without flipping;
  \<^item> \<^verbatim>\<open>src/plugin-loader.ts\<close>: the same plugin with a fallback positioner that flips.

  Numbers: a JavaScript number is modelled as a \<^typ>\<open>real\<close>; rounding, NaN and the
  infinities of IEEE doubles are outside the model. Strings: a JavaScript string is
  modelled as a \<^typ>\<open>string\<close>, one \<^typ>\<open>char\<close> for each code unit below 256.
\<close>

subsection \<open>String primitives of the host language\<close>

text \<open>\<^verbatim>\<open>s.startsWith(p)\<close>\<close>

fun startsWith :: "string \<Rightarrow> string \<Rightarrow> bool" where
  "startsWith s [] = True"
| "startsWith [] (p # ps) = False"
| "startsWith (c # cs) (p # ps) = (c = p \<and> startsWith cs ps)"

text \<open>\<^verbatim>\<open>s.includes(p)\<close> (a reserved word here, hence the name): \<open>p\<close> occurs in \<open>s\<close> as a contiguous run.\<close>

fun includesStr :: "string \<Rightarrow> string \<Rightarrow> bool" where
  "includesStr [] p = (p = [])"
| "includesStr (c # cs) p = (startsWith (c # cs) p \<or> includesStr cs p)"

text \<open>\<^verbatim>\<open>s.replace(p, r)\<close> with a string pattern: only the first occurrence is replaced.\<close>

fun replace :: "string \<Rightarrow> string \<Rightarrow> string \<Rightarrow> string" where
  "replace [] p r = (if p = [] then r else [])"
| "replace (c # cs) p r =
     (if startsWith (c # cs) p then r @ drop (length p) (c # cs) else c # replace cs p r)"

subsection \<open>Rectangles and the window\<close>

text \<open>
  A \<^verbatim>\<open>DOMRect\<close> as \<^verbatim>\<open>getBoundingClientRect\<close> returns it. The code reads the six
  fields one by one, so the record keeps all six.
\<close>

record rect =
  rect_left :: real
  rect_top :: real
  rect_right :: real
  rect_bottom :: real
  rect_width :: real
  rect_height :: real

record window =
  innerWidth :: real
  innerHeight :: real
  scrollX :: real
  scrollY :: real

subsection \<open>The geometry engine: \<^verbatim>\<open>FloatingUICore.computePosition\<close> (dist/anchor.js)\<close>

record options =
  opt_placement :: "string option"
  opt_offset :: "real option"

text \<open>
  The \<^verbatim>\<open>switch (placement)\<close> that computes the base position. The result carries
  \<^verbatim>\<open>finalPlacement\<close>, which the \<^verbatim>\<open>default\<close> branch resets to \<^verbatim>\<open>'bottom'\<close>.
\<close>

definition basePosition :: "rect \<Rightarrow> rect \<Rightarrow> real \<Rightarrow> string \<Rightarrow> real \<times> real \<times> string" where
  "basePosition refRect floatingRect offset placement =
     (if placement = ''top'' then
        (rect_left refRect + (rect_width refRect - rect_width floatingRect) / 2,
         rect_top refRect - rect_height floatingRect - offset, placement)
      else if placement = ''top-start'' then
        (rect_left refRect,
         rect_top refRect - rect_height floatingRect - offset, placement)
      else if placement = ''top-end'' then
        (rect_right refRect - rect_width floatingRect,
         rect_top refRect - rect_height floatingRect - offset, placement)
      else if placement = ''bottom'' then
        (rect_left refRect + (rect_width refRect - rect_width floatingRect) / 2,
         rect_bottom refRect + offset, placement)
      else if placement = ''bottom-start'' then
        (rect_left refRect,
         rect_bottom refRect + offset, placement)
      else if placement = ''bottom-end'' then
        (rect_right refRect - rect_width floatingRect,
         rect_bottom refRect + offset, placement)
      else if placement = ''left'' then
        (rect_left refRect - rect_width floatingRect - offset,
         rect_top refRect + (rect_height refRect - rect_height floatingRect) / 2, placement)
      else if placement = ''left-start'' then
        (rect_left refRect - rect_width floatingRect - offset,
         rect_top refRect, placement)
      else if placement = ''left-end'' then
        (rect_left refRect - rect_width floatingRect - offset,
         rect_bottom refRect - rect_height floatingRect, placement)
      else if placement = ''right'' then
        (rect_right refRect + offset,
         rect_top refRect + (rect_height refRect - rect_height floatingRect) / 2, placement)
      else if placement = ''right-start'' then
        (rect_right refRect + offset,
         rect_top refRect, placement)
      else if placement = ''right-end'' then
        (rect_right refRect + offset,
         rect_bottom refRect - rect_height floatingRect, placement)
      else
        (rect_left refRect + (rect_width refRect - rect_width floatingRect) / 2,
         rect_bottom refRect + offset, ''bottom''))"

text \<open>\<^verbatim>\<open>const padding = 5; // Minimum distance from viewport edge\<close>\<close>

definition padding :: real where
  "padding = 5"

text \<open>The \<^verbatim>\<open>if (x < padding) ... else if (x + floatingRect.width > ...)\<close> statement.\<close>

definition adjustX :: "window \<Rightarrow> rect \<Rightarrow> rect \<Rightarrow> real \<Rightarrow> real \<times> string \<Rightarrow> real \<times> string" where
  "adjustX w refRect floatingRect offset st =
     (case st of (x, finalPlacement) \<Rightarrow>
        if x < padding then
          (if includesStr finalPlacement ''left''
           then (rect_right refRect + offset, replace finalPlacement ''left'' ''right'')
           else (padding, finalPlacement))
        else if x + rect_width floatingRect > innerWidth w - padding then
          (if includesStr finalPlacement ''right''
           then (rect_left refRect - rect_width floatingRect - offset,
                 replace finalPlacement ''right'' ''left'')
           else (innerWidth w - rect_width floatingRect - padding, finalPlacement))
        else (x, finalPlacement))"

text \<open>The \<^verbatim>\<open>if (y < padding) ... else if (y + floatingRect.height > ...)\<close> statement.\<close>

definition adjustY :: "window \<Rightarrow> rect \<Rightarrow> rect \<Rightarrow> real \<Rightarrow> real \<times> string \<Rightarrow> real \<times> string" where
  "adjustY w refRect floatingRect offset st =
     (case st of (y, finalPlacement) \<Rightarrow>
        if y < padding then
          (if includesStr finalPlacement ''top''
           then (rect_bottom refRect + offset, replace finalPlacement ''top'' ''bottom'')
           else (padding, finalPlacement))
        else if y + rect_height floatingRect > innerHeight w - padding then
          (if includesStr finalPlacement ''bottom''
           then (rect_top refRect - rect_height floatingRect - offset,
                 replace finalPlacement ''bottom'' ''top'')
           else (innerHeight w - rect_height floatingRect - padding, finalPlacement))
        else (y, finalPlacement))"

text \<open>
  The body of \<^verbatim>\<open>computePosition\<close> up to the scroll adjustment: the values of
  \<^verbatim>\<open>x\<close>, \<^verbatim>\<open>y\<close> and \<^verbatim>\<open>finalPlacement\<close> after both boundary statements.
\<close>

definition placed :: "window \<Rightarrow> rect \<Rightarrow> rect \<Rightarrow> real \<Rightarrow> string \<Rightarrow> real \<times> real \<times> string" where
  "placed w refRect floatingRect offset placement =
     (case basePosition refRect floatingRect offset placement of (x0, y0, p0) \<Rightarrow>
        case adjustX w refRect floatingRect offset (x0, p0) of (x1, p1) \<Rightarrow>
          case adjustY w refRect floatingRect offset (y0, p1) of (y1, p2) \<Rightarrow>
            (x1, y1, p2))"

text \<open>
  \<^verbatim>\<open>computePosition(reference, floating, options = {})\<close>, with the two rectangles and
  the window read from the page passed in. The destructuring defaults are
  \<^verbatim>\<open>placement = 'bottom'\<close> and \<^verbatim>\<open>offset = 0\<close>; the result is \<^verbatim>\<open>{ x, y }\<close>.
\<close>

definition computePosition :: "window \<Rightarrow> rect \<Rightarrow> rect \<Rightarrow> options \<Rightarrow> real \<times> real" where
  "computePosition w refRect floatingRect opts =
     (let placement = (case opt_placement opts of None \<Rightarrow> ''bottom'' | Some p \<Rightarrow> p);
          offset = (case opt_offset opts of None \<Rightarrow> 0 | Some d \<Rightarrow> d)
      in case placed w refRect floatingRect offset placement of (x, y, finalPlacement) \<Rightarrow>
           (x + scrollX w, y + scrollY w))"

subsection \<open>The twelve placements, as the specification names them\<close>

datatype side = Top | Bottom | Left | Right

datatype alignment = Center | Start | End

fun side_name :: "side \<Rightarrow> string" where
  "side_name Top = ''top''"
| "side_name Bottom = ''bottom''"
| "side_name Left = ''left''"
| "side_name Right = ''right''"

fun placement_name :: "side \<Rightarrow> alignment \<Rightarrow> string" where
  "placement_name s Center = side_name s"
| "placement_name s Start = side_name s @ ''-start''"
| "placement_name s End = side_name s @ ''-end''"

fun vertical :: "side \<Rightarrow> bool" where
  "vertical Top = True"
| "vertical Bottom = True"
| "vertical Left = False"
| "vertical Right = False"

text \<open>
  The documented formula, written from the specification's words: the main axis puts the
  floating element beyond the named side of the reference, \<open>offset\<close> pixels away; the
  cross axis centres it, or aligns it to the leading or the trailing edge.
\<close>

fun main_axis :: "rect \<Rightarrow> rect \<Rightarrow> real \<Rightarrow> side \<Rightarrow> real" where
  "main_axis r f d Top = rect_top r - rect_height f - d"
| "main_axis r f d Bottom = rect_bottom r + d"
| "main_axis r f d Left = rect_left r - rect_width f - d"
| "main_axis r f d Right = rect_right r + d"

fun cross_x :: "rect \<Rightarrow> rect \<Rightarrow> alignment \<Rightarrow> real" where
  "cross_x r f Center = rect_left r + (rect_width r - rect_width f) / 2"
| "cross_x r f Start = rect_left r"
| "cross_x r f End = rect_right r - rect_width f"

fun cross_y :: "rect \<Rightarrow> rect \<Rightarrow> alignment \<Rightarrow> real" where
  "cross_y r f Center = rect_top r + (rect_height r - rect_height f) / 2"
| "cross_y r f Start = rect_top r"
| "cross_y r f End = rect_bottom r - rect_height f"

definition documented_position :: "rect \<Rightarrow> rect \<Rightarrow> real \<Rightarrow> side \<Rightarrow> alignment \<Rightarrow> real \<times> real" where
  "documented_position r f d s a =
     (if vertical s then (cross_x r f a, main_axis r f d s)
      else (main_axis r f d s, cross_y r f a))"

subsection \<open>More string primitives\<close>

text \<open>
  White space as \<^verbatim>\<open>String.prototype.trim\<close> and the regular expression class
  \<^verbatim>\<open>\s\<close> see it, among the code units of the model: tab, line feed, vertical tab,
  form feed, carriage return, space and the no-break space.
\<close>

definition isSpace :: "char \<Rightarrow> bool" where
  "isSpace c = (c \<in> set [CHR 0x09, CHR 0x0A, CHR 0x0B, CHR 0x0C, CHR 0x0D, CHR 0x20, CHR 0xA0])"

text \<open>The class \<^verbatim>\<open>\d\<close>.\<close>

definition isDigit :: "char \<Rightarrow> bool" where
  "isDigit c = (c \<in> set ''0123456789'')"

text \<open>The class \<^verbatim>\<open>[a-z%]\<close>.\<close>

definition isUnitChar :: "char \<Rightarrow> bool" where
  "isUnitChar c = (c \<in> set ''abcdefghijklmnopqrstuvwxyz%'')"

text \<open>The class \<^verbatim>\<open>[a-zA-Z0-9]\<close>.\<close>

definition isAlnum :: "char \<Rightarrow> bool" where
  "isAlnum c = (c \<in> set ''abcdefghijklmnopqrstuvwxyzABCDEFGHIJKLMNOPQRSTUVWXYZ0123456789'')"

text \<open>The class \<^verbatim>\<open>['"]\<close>.\<close>

definition isQuote :: "char \<Rightarrow> bool" where
  "isQuote c = (c = CHR 0x27 \<or> c = CHR 0x22)"

text \<open>\<^verbatim>\<open>s.trim()\<close>\<close>

definition trim :: "string \<Rightarrow> string" where
  "trim s = rev (dropWhile isSpace (rev (dropWhile isSpace s)))"

text \<open>
  \<^verbatim>\<open>s.split(",")\<close>: the pieces between the commas, empty pieces included; the
  empty string gives one empty piece.
\<close>

fun split :: "char \<Rightarrow> string \<Rightarrow> string list" where
  "split d [] = [[]]"
| "split d (c # cs) =
     (if c = d then [] # split d cs
      else case split d cs of p # ps \<Rightarrow> (c # p) # ps | [] \<Rightarrow> [[c]])"

text \<open>
  \<^verbatim>\<open>value.replace(/^['"]|['"]$/g, "")\<close>: one quote is removed at the start, and one
  at the end of what is left.
\<close>

definition stripQuotes :: "string \<Rightarrow> string" where
  "stripQuotes s =
     (let s1 = (case s of c # cs \<Rightarrow> if isQuote c then cs else s | [] \<Rightarrow> [])
      in if s1 \<noteq> [] \<and> isQuote (last s1) then butlast s1 else s1)"

text \<open>
  \<^verbatim>\<open>a || b\<close> on a string that may be \<^verbatim>\<open>null\<close> or \<^verbatim>\<open>undefined\<close>: both, and
  the empty string, are falsy.
\<close>

fun orElse :: "string option \<Rightarrow> string \<Rightarrow> string" where
  "orElse None d = d"
| "orElse (Some s) d = (if s = [] then d else s)"

text \<open>\<^verbatim>\<open>parts[i]\<close>: \<^verbatim>\<open>undefined\<close> beyond the end of the array.\<close>

definition nthOpt :: "'a list \<Rightarrow> nat \<Rightarrow> 'a option" where
  "nthOpt xs i = (if i < length xs then Some (xs ! i) else None)"

subsection \<open>The placement resolver: \<^verbatim>\<open>parseAnchorConfig\<close> (dist/src/anchor.js)\<close>

text \<open>
  The match of \<^verbatim>\<open>/^(\d+(?:\.\d+)?)\s*([a-z%]*)?$/\<close>: \<open>None\<close> for \<^verbatim>\<open>null\<close>, otherwise
  the two groups. The four character classes involved (digits, the dot, white space,
  unit characters) are pairwise disjoint, so the greedy scan below finds a match
  whenever backtracking would. An empty second group is \<^verbatim>\<open>undefined\<close> in the host
  language; the code only reads it through \<^verbatim>\<open>||\<close>, which treats it as the
  empty string.
\<close>

definition offsetMatch :: "string \<Rightarrow> (string \<times> string) option" where
  "offsetMatch s =
     (let whole = takeWhile isDigit s; r1 = dropWhile isDigit s
      in if whole = [] then None
         else
           let decimals = (case r1 of c # r \<Rightarrow> if c = CHR ''.'' then takeWhile isDigit r else []
                           | [] \<Rightarrow> []);
               g1 = (if decimals = [] then whole else whole @ ''.'' @ decimals);
               r2 = drop (length g1) s;
               r3 = dropWhile isSpace r2;
               g2 = takeWhile isUnitChar r3
           in if dropWhile isUnitChar r3 = [] then Some (g1, g2) else None)"

text \<open>The value of a run of decimal digits.\<close>

definition digitValue :: "char \<Rightarrow> nat" where
  "digitValue c = of_char c - 48"

definition digitsValue :: "string \<Rightarrow> nat" where
  "digitsValue ds = foldl (\<lambda>n c. 10 * n + digitValue c) 0 ds"

text \<open>
  \<^verbatim>\<open>parseFloat\<close> on the first group of a match, which is digits with an optional
  fraction: the decimal value, exactly.
\<close>

definition parseFloat :: "string \<Rightarrow> real" where
  "parseFloat s =
     (let whole = takeWhile isDigit s; decimals = drop (Suc (length whole)) s
      in real (digitsValue whole) + real (digitsValue decimals) / 10 ^ length decimals)"

text \<open>
  A style value is the list of the parts of the template literal that built it;
  the conversion of a number to text is left symbolic (\<open>Num\<close>).
\<close>

datatype css_part = Str string | Num real

type_synonym css_value = "css_part list"

text \<open>An element, as far as the plugin reads and writes it.\<close>

record element =
  elem_id :: string
  attributes :: "string \<rightharpoonup> string"
  style :: "string \<rightharpoonup> css_value"
  boundingClientRect :: rect
  fontSize :: real

text \<open>\<^verbatim>\<open>el.getAttribute(name)\<close>\<close>

definition getAttribute :: "element \<Rightarrow> string \<Rightarrow> string option" where
  "getAttribute el name = attributes el name"

record anchor_config =
  target :: string
  placement :: string
  offsetValue :: real
  offsetUnit :: string

definition cleanValue :: "string \<Rightarrow> string" where
  "cleanValue v = trim (stripQuotes v)"

text \<open>\<^verbatim>\<open>cleanValue.split(",").map((part) => part.trim()).filter((part) => part.length > 0)\<close>\<close>

definition parts :: "string \<Rightarrow> string list" where
  "parts cv = filter (\<lambda>part. length part > 0) (map trim (split (CHR '','') cv))"

definition parseAnchorConfig :: "element \<Rightarrow> string \<Rightarrow> anchor_config" where
  "parseAnchorConfig el v =
     (let cv = cleanValue v
      in if CHR '','' \<in> set cv then
           let ps = parts cv;
               tgt = orElse (nthOpt ps 0) [];
               plc = orElse (nthOpt ps 1) ''bottom'';
               (ov, ou) =
                 (case nthOpt ps 2 of
                    None \<Rightarrow> (8, ''px'')
                  | Some p2 \<Rightarrow>
                      if p2 = [] then (8, ''px'')
                      else case offsetMatch p2 of
                             None \<Rightarrow> (8, ''px'')
                           | Some (g1, g2) \<Rightarrow> (parseFloat g1, orElse (Some g2) ''px''))
           in \<lparr>target = tgt, placement = plc, offsetValue = ov, offsetUnit = ou\<rparr>
         else
           let tgt = orElse (Some cv) (orElse (getAttribute el ''data-anchor'') []);
               plc = orElse (getAttribute el ''data-anchor-placement'') ''bottom'';
               offsetAttr = orElse (getAttribute el ''data-anchor-offset'') ''8'';
               m = offsetMatch offsetAttr;
               ov = (case m of None \<Rightarrow> 8 | Some (g1, g2) \<Rightarrow> parseFloat g1);
               ou = orElse (case m of None \<Rightarrow> None | Some (g1, g2) \<Rightarrow> Some g2) ''px''
           in \<lparr>target = tgt, placement = plc, offsetValue = ov, offsetUnit = ou\<rparr>)"

subsection \<open>The page\<close>

text \<open>
  What the host language raises in the code modelled here: a \<^verbatim>\<open>SyntaxError\<close> from
  \<^verbatim>\<open>document.querySelector\<close> on a string that is not a selector, a \<^verbatim>\<open>TypeError\<close>
  from iterating or calling what is not a list.
\<close>

datatype js_error = SyntaxError | TypeError

text \<open>
  The document is the list of its elements in document order; an element reference is
  an index into it, so two references may name the same element. The selector engine
  of the browser is not code of this repository: \<open>querySelector\<close> is the answer the
  document gives for each selector string (an error, \<^verbatim>\<open>null\<close> or an element).
  \<open>cssAnchorSupported\<close> is the result of \<^verbatim>\<open>supportsCSSAnchor()\<close>, \<open>dateNow\<close> the text
  of \<^verbatim>\<open>Date.now()\<close>, \<open>rootFontSize\<close> the parsed font size of the root element, and
  \<open>listeners\<close> the handlers registered on the window, each as the event name and the
  floating element it repositions.
\<close>

record page =
  elements :: "element list"
  querySelector :: "string \<Rightarrow> js_error + nat option"
  cssAnchorSupported :: bool
  dateNow :: string
  rootFontSize :: real
  win :: window
  listeners :: "(string \<times> nat) list"

fun findIndex :: "('a \<Rightarrow> bool) \<Rightarrow> 'a list \<Rightarrow> nat option" where
  "findIndex P [] = None"
| "findIndex P (x # xs) = (if P x then Some 0 else map_option Suc (findIndex P xs))"

text \<open>\<^verbatim>\<open>document.getElementById(id)\<close>: the first element with that id; no element has
  the empty id.\<close>

definition getElementById :: "page \<Rightarrow> string \<Rightarrow> nat option" where
  "getElementById pg i = (if i = [] then None else findIndex (\<lambda>e. elem_id e = i) (elements pg))"

definition updateElement :: "page \<Rightarrow> nat \<Rightarrow> (element \<Rightarrow> element) \<Rightarrow> page" where
  "updateElement pg i f = pg\<lparr>elements := (elements pg)[i := f (elements pg ! i)]\<rparr>"

definition setStyle :: "string \<Rightarrow> css_value \<Rightarrow> element \<Rightarrow> element" where
  "setStyle k v e = e\<lparr>style := (style e)(k \<mapsto> v)\<rparr>"

text \<open>\<^verbatim>\<open>Object.assign(el.style, styles)\<close>\<close>

fun assignStyles :: "(string \<times> css_value) list \<Rightarrow> element \<Rightarrow> element" where
  "assignStyles [] e = e"
| "assignStyles ((k, v) # kvs) e = assignStyles kvs (setStyle k v e)"

subsection \<open>Unit conversion (the \<^verbatim>\<open>switch (offsetUnit)\<close> of \<^verbatim>\<open>updatePosition\<close>)\<close>

text \<open>
  The specification calls this \<^verbatim>\<open>toPixels\<close>; in the code it is the computation of
  \<^verbatim>\<open>offsetPx\<close>, the same in every draft of the fallback positioner. There is no
  \<^verbatim>\<open>case\<close> for \<^verbatim>\<open>px\<close> or \<^verbatim>\<open>%\<close>: they keep the initial \<^verbatim>\<open>offsetPx = offsetValue\<close>.
\<close>

definition offsetPx :: "page \<Rightarrow> element \<Rightarrow> real \<Rightarrow> string \<Rightarrow> real" where
  "offsetPx pg el ov ou =
     (if ou = ''rem'' then ov * rootFontSize pg
      else if ou = ''em'' then ov * fontSize el
      else if ou = ''vw'' then ov / 100 * innerWidth (win pg)
      else if ou = ''vh'' then ov / 100 * innerHeight (win pg)
      else ov)"

subsection \<open>The fallback positioner without flipping (dist/src/anchor.js)\<close>

text \<open>The \<^verbatim>\<open>switch (placement)\<close>: \<^verbatim>\<open>x\<close>, \<^verbatim>\<open>y\<close> and the value of \<^verbatim>\<open>el.style.translate\<close>.\<close>

definition basicPosition :: "rect \<Rightarrow> real \<Rightarrow> string \<Rightarrow> real \<times> real \<times> string" where
  "basicPosition targetRect px plc =
     (if plc = ''top'' then
        (rect_left targetRect + rect_width targetRect / 2, rect_top targetRect - px, ''-50% -100%'')
      else if plc = ''top-start'' then
        (rect_left targetRect, rect_top targetRect - px, ''0 -100%'')
      else if plc = ''top-end'' then
        (rect_right targetRect, rect_top targetRect - px, ''-100% -100%'')
      else if plc = ''bottom'' then
        (rect_left targetRect + rect_width targetRect / 2, rect_bottom targetRect + px, ''-50% 0'')
      else if plc = ''bottom-start'' then
        (rect_left targetRect, rect_bottom targetRect + px, ''0 0'')
      else if plc = ''bottom-end'' then
        (rect_right targetRect, rect_bottom targetRect + px, ''-100% 0'')
      else if plc = ''left'' then
        (rect_left targetRect - px, rect_top targetRect + rect_height targetRect / 2, ''-100% -50%'')
      else if plc = ''left-start'' then
        (rect_left targetRect - px, rect_top targetRect, ''-100% 0'')
      else if plc = ''left-end'' then
        (rect_left targetRect - px, rect_bottom targetRect, ''-100% -100%'')
      else if plc = ''right'' then
        (rect_right targetRect + px, rect_top targetRect + rect_height targetRect / 2, ''0 -50%'')
      else if plc = ''right-start'' then
        (rect_right targetRect + px, rect_top targetRect, ''0 0'')
      else if plc = ''right-end'' then
        (rect_right targetRect + px, rect_bottom targetRect, ''0 -100%'')
      else
        (rect_left targetRect + rect_width targetRect / 2, rect_bottom targetRect + px, ''-50% 0''))"

definition updatePositionBasic :: "page \<Rightarrow> nat \<Rightarrow> nat \<Rightarrow> string \<Rightarrow> real \<Rightarrow> string \<Rightarrow> page" where
  "updatePositionBasic pg el tgt plc ov ou =
     (let targetRect = boundingClientRect (elements pg ! tgt);
          px = offsetPx pg (elements pg ! el) ov ou
      in case basicPosition targetRect px plc of (x, y, tr) \<Rightarrow>
           updateElement pg el
             (setStyle ''top'' [Num (y + scrollY (win pg)), Str ''px''] \<circ>
              setStyle ''left'' [Num (x + scrollX (win pg)), Str ''px''] \<circ>
              setStyle ''position'' [Str ''absolute''] \<circ>
              setStyle ''translate'' [Str tr]))"

text \<open>
  \<^verbatim>\<open>applyFallbackPositioning\<close>: one \<^verbatim>\<open>updatePosition()\<close>, then the two listeners. The
  cleanup function it returns is identified by the element whose listeners it removes.
\<close>

definition applyFallbackPositioningBasic ::
    "page \<Rightarrow> nat \<Rightarrow> nat \<Rightarrow> string \<Rightarrow> real \<Rightarrow> string \<Rightarrow> page \<times> nat" where
  "applyFallbackPositioningBasic pg el tgt plc ov ou =
     (let pg1 = updatePositionBasic pg el tgt plc ov ou
      in (pg1\<lparr>listeners := listeners pg1 @ [(''scroll'', el), (''resize'', el)]\<rparr>, el))"

text \<open>The returned cleanup function, called.\<close>

definition cleanup :: "page \<Rightarrow> nat \<Rightarrow> page" where
  "cleanup pg el = pg\<lparr>listeners := filter (\<lambda>l. snd l \<noteq> el) (listeners pg)\<rparr>"

subsection \<open>The fallback table\<close>

text \<open>
  The object literal \<^verbatim>\<open>fallbacks\<close>, the same in \<^verbatim>\<open>getPositionTryOptions\<close>
  (dist/src/anchor.js) and in the flipping \<^verbatim>\<open>updatePosition\<close> (src/plugin-loader.ts).
\<close>

definition fallbacks :: "(string \<times> string list) list" where
  "fallbacks =
     [(''top'', [''bottom'', ''left'', ''right'']),
      (''top-start'', [''bottom-start'', ''top-end'', ''bottom-end'']),
      (''top-end'', [''bottom-end'', ''top-start'', ''bottom-start'']),
      (''bottom'', [''top'', ''left'', ''right'']),
      (''bottom-start'', [''top-start'', ''bottom-end'', ''top-end'']),
      (''bottom-end'', [''top-end'', ''bottom-start'', ''top-start'']),
      (''left'', [''right'', ''top'', ''bottom'']),
      (''left-start'', [''right-start'', ''left-end'', ''right-end'']),
      (''left-end'', [''right-end'', ''left-start'', ''right-start'']),
      (''right'', [''left'', ''top'', ''bottom'']),
      (''right-start'', [''left-start'', ''right-end'', ''left-end'']),
      (''right-end'', [''left-end'', ''right-start'', ''left-start''])]"

text \<open>
  The names every object literal inherits from \<^verbatim>\<open>Object.prototype\<close>. Reading one of
  them from \<^verbatim>\<open>fallbacks\<close> gives a function or an object, which is truthy and is
  neither iterable nor has a \<^verbatim>\<open>map\<close> method.
\<close>

definition objectPrototypeKeys :: "string list" where
  "objectPrototypeKeys =
     [''constructor'', ''__defineGetter__'', ''__defineSetter__'', ''hasOwnProperty'',
      ''__lookupGetter__'', ''__lookupSetter__'', ''isPrototypeOf'', ''propertyIsEnumerable'',
      ''toString'', ''valueOf'', ''__proto__'', ''toLocaleString'']"

text \<open>
  \<^verbatim>\<open>fallbacks[placement] || ["bottom", "top", "left", "right"]\<close>, as a list that can be
  used as one; \<open>Inl TypeError\<close> where the use of the value read raises.
\<close>

definition fallbackPlacements :: "string \<Rightarrow> js_error + string list" where
  "fallbackPlacements plc =
     (case map_of fallbacks plc of
        Some fs \<Rightarrow> Inr fs
      | None \<Rightarrow>
          if plc \<in> set objectPrototypeKeys then Inl TypeError
          else Inr [''bottom'', ''top'', ''left'', ''right''])"

subsection \<open>The fallback positioner with flipping (src/plugin-loader.ts)\<close>

text \<open>\<^verbatim>\<open>calculatePosition(testPlacement)\<close>: \<^verbatim>\<open>{ x, y, placement: testPlacement }\<close>.\<close>

definition calculatePosition :: "rect \<Rightarrow> rect \<Rightarrow> real \<Rightarrow> string \<Rightarrow> real \<times> real \<times> string" where
  "calculatePosition targetRect elRect px testPlacement =
     (if testPlacement = ''top'' then
        (rect_left targetRect + (rect_width targetRect - rect_width elRect) / 2,
         rect_top targetRect - rect_height elRect - px, testPlacement)
      else if testPlacement = ''top-start'' then
        (rect_left targetRect,
         rect_top targetRect - rect_height elRect - px, testPlacement)
      else if testPlacement = ''top-end'' then
        (rect_right targetRect - rect_width elRect,
         rect_top targetRect - rect_height elRect - px, testPlacement)
      else if testPlacement = ''bottom'' then
        (rect_left targetRect + (rect_width targetRect - rect_width elRect) / 2,
         rect_bottom targetRect + px, testPlacement)
      else if testPlacement = ''bottom-start'' then
        (rect_left targetRect,
         rect_bottom targetRect + px, testPlacement)
      else if testPlacement = ''bottom-end'' then
        (rect_right targetRect - rect_width elRect,
         rect_bottom targetRect + px, testPlacement)
      else if testPlacement = ''left'' then
        (rect_left targetRect - rect_width elRect - px,
         rect_top targetRect + (rect_height targetRect - rect_height elRect) / 2, testPlacement)
      else if testPlacement = ''left-start'' then
        (rect_left targetRect - rect_width elRect - px,
         rect_top targetRect, testPlacement)
      else if testPlacement = ''left-end'' then
        (rect_left targetRect - rect_width elRect - px,
         rect_bottom targetRect - rect_height elRect, testPlacement)
      else if testPlacement = ''right'' then
        (rect_right targetRect + px,
         rect_top targetRect + (rect_height targetRect - rect_height elRect) / 2, testPlacement)
      else if testPlacement = ''right-start'' then
        (rect_right targetRect + px,
         rect_top targetRect, testPlacement)
      else if testPlacement = ''right-end'' then
        (rect_right targetRect + px,
         rect_bottom targetRect - rect_height elRect, testPlacement)
      else
        (rect_left targetRect + (rect_width targetRect - rect_width elRect) / 2,
         rect_bottom targetRect + px, testPlacement))"

text \<open>\<^verbatim>\<open>const padding = 10; // Minimum distance from viewport edge\<close>\<close>

definition flipPadding :: real where
  "flipPadding = 10"

definition isWithinViewport :: "window \<Rightarrow> rect \<Rightarrow> real \<times> real \<times> string \<Rightarrow> bool" where
  "isWithinViewport w elRect pos =
     (case pos of (x, y, p) \<Rightarrow>
        x \<ge> flipPadding \<and>
        x + rect_width elRect \<le> innerWidth w - flipPadding \<and>
        y \<ge> flipPadding \<and>
        y + rect_height elRect \<le> innerHeight w - flipPadding)"

text \<open>
  The loop \<^verbatim>\<open>for (const fallbackPlacement of fallbackPlacements)\<close> with its
  \<^verbatim>\<open>break\<close>; the last argument is \<^verbatim>\<open>finalPosition\<close> as it stands when the loop starts.
\<close>

fun tryFallbacks ::
    "window \<Rightarrow> rect \<Rightarrow> rect \<Rightarrow> real \<Rightarrow> string list \<Rightarrow> real \<times> real \<times> string \<Rightarrow> real \<times> real \<times> string" where
  "tryFallbacks w targetRect elRect px [] finalPosition = finalPosition"
| "tryFallbacks w targetRect elRect px (fallbackPlacement # rest) finalPosition =
     (let testPosition = calculatePosition targetRect elRect px fallbackPlacement
      in if isWithinViewport w elRect testPosition then testPosition
         else tryFallbacks w targetRect elRect px rest finalPosition)"

text \<open>\<^verbatim>\<open>finalPosition\<close> before the scroll offsets are added.\<close>

definition finalPosition ::
    "window \<Rightarrow> rect \<Rightarrow> rect \<Rightarrow> real \<Rightarrow> string \<Rightarrow> js_error + real \<times> real \<times> string" where
  "finalPosition w targetRect elRect px plc =
     (let pos = calculatePosition targetRect elRect px plc
      in if \<not> isWithinViewport w elRect pos then
           (case fallbackPlacements plc of
              Inl e \<Rightarrow> Inl e
            | Inr fs \<Rightarrow> Inr (tryFallbacks w targetRect elRect px fs pos))
         else Inr pos)"

definition setAttribute :: "string \<Rightarrow> string \<Rightarrow> element \<Rightarrow> element" where
  "setAttribute k v e = e\<lparr>attributes := (attributes e)(k \<mapsto> v)\<rparr>"

definition updatePosition :: "page \<Rightarrow> nat \<Rightarrow> nat \<Rightarrow> string \<Rightarrow> real \<Rightarrow> string \<Rightarrow> js_error + page" where
  "updatePosition pg el tgt plc ov ou =
     (let targetRect = boundingClientRect (elements pg ! tgt);
          elRect = boundingClientRect (elements pg ! el);
          px = offsetPx pg (elements pg ! el) ov ou
      in case finalPosition (win pg) targetRect elRect px plc of
           Inl e \<Rightarrow> Inl e
         | Inr (x, y, used) \<Rightarrow>
             Inr (updateElement pg el
                    (setAttribute ''data-actual-placement'' used \<circ>
                     setStyle ''top'' [Num (y + scrollY (win pg)), Str ''px''] \<circ>
                     setStyle ''left'' [Num (x + scrollX (win pg)), Str ''px''] \<circ>
                     setStyle ''position'' [Str ''absolute''])))"

subsection \<open>The CSS-native positioner (dist/src/anchor.js)\<close>

text \<open>\<^verbatim>\<open>`--anchor-${targetId.replace(/[^a-zA-Z0-9]/g, "-")}`\<close>\<close>

definition generateAnchorName :: "string \<Rightarrow> string" where
  "generateAnchorName targetId =
     ''--anchor-'' @ map (\<lambda>c. if isAlnum c then c else CHR ''-'') targetId"

text \<open>\<^verbatim>\<open>xs.join(sep)\<close>\<close>

fun join :: "string \<Rightarrow> string list \<Rightarrow> string" where
  "join sep [] = []"
| "join sep [x] = x"
| "join sep (x # y # ys) = x @ sep @ join sep (y # ys)"

definition getPositionTryOptions :: "string \<Rightarrow> js_error + string" where
  "getPositionTryOptions plc =
     (case fallbackPlacements plc of
        Inl e \<Rightarrow> Inl e
      | Inr fs \<Rightarrow> Inr (join '', '' (map (\<lambda>p. ''flip-'' @ p) fs)))"

text \<open>The properties the \<^verbatim>\<open>switch (placement)\<close> of \<^verbatim>\<open>getAnchorCSS\<close> adds, in order.\<close>

definition placementStyles :: "string \<Rightarrow> real \<Rightarrow> string \<Rightarrow> (string \<times> css_value) list" where
  "placementStyles plc ov ou =
     (if plc = ''top'' then
        [(''bottom'', [Str ''anchor(top)'']), (''left'', [Str ''anchor(center)'']),
         (''translate'', [Str ''-50% -'', Num ov, Str ou])]
      else if plc = ''top-start'' then
        [(''bottom'', [Str ''anchor(top)'']), (''left'', [Str ''anchor(left)'']),
         (''translate'', [Str ''0 -'', Num ov, Str ou])]
      else if plc = ''top-end'' then
        [(''bottom'', [Str ''anchor(top)'']), (''right'', [Str ''anchor(right)'']),
         (''translate'', [Str ''0 -'', Num ov, Str ou])]
      else if plc = ''bottom'' then
        [(''top'', [Str ''anchor(bottom)'']), (''left'', [Str ''anchor(center)'']),
         (''translate'', [Str ''-50% '', Num ov, Str ou])]
      else if plc = ''bottom-start'' then
        [(''top'', [Str ''anchor(bottom)'']), (''left'', [Str ''anchor(left)'']),
         (''translate'', [Str ''0 '', Num ov, Str ou])]
      else if plc = ''bottom-end'' then
        [(''top'', [Str ''anchor(bottom)'']), (''right'', [Str ''anchor(right)'']),
         (''translate'', [Str ''0 '', Num ov, Str ou])]
      else if plc = ''left'' then
        [(''right'', [Str ''anchor(left)'']), (''top'', [Str ''anchor(center)'']),
         (''translate'', [Str ''-'', Num ov, Str ou, Str '' -50%''])]
      else if plc = ''left-start'' then
        [(''right'', [Str ''anchor(left)'']), (''top'', [Str ''anchor(top)'']),
         (''translate'', [Str ''-'', Num ov, Str ou, Str '' 0''])]
      else if plc = ''left-end'' then
        [(''right'', [Str ''anchor(left)'']), (''bottom'', [Str ''anchor(bottom)'']),
         (''translate'', [Str ''-'', Num ov, Str ou, Str '' 0''])]
      else if plc = ''right'' then
        [(''left'', [Str ''anchor(right)'']), (''top'', [Str ''anchor(center)'']),
         (''translate'', [Num ov, Str ou, Str '' -50%''])]
      else if plc = ''right-start'' then
        [(''left'', [Str ''anchor(right)'']), (''top'', [Str ''anchor(top)'']),
         (''translate'', [Num ov, Str ou, Str '' 0''])]
      else if plc = ''right-end'' then
        [(''left'', [Str ''anchor(right)'']), (''bottom'', [Str ''anchor(bottom)'']),
         (''translate'', [Num ov, Str ou, Str '' 0''])]
      else
        [(''top'', [Str ''anchor(bottom)'']), (''left'', [Str ''anchor(center)'']),
         (''translate'', [Str ''-50% '', Num ov, Str ou])])"

definition getAnchorCSS ::
    "string \<Rightarrow> string \<Rightarrow> real \<Rightarrow> string \<Rightarrow> js_error + (string \<times> css_value) list" where
  "getAnchorCSS anchorName plc ov ou =
     (case getPositionTryOptions plc of
        Inl e \<Rightarrow> Inl e
      | Inr tryOptions \<Rightarrow>
          Inr ([(''position'', [Str ''absolute'']),
                (''position-anchor'', [Str anchorName]),
                (''position-try-options'', [Str tryOptions])] @ placementStyles plc ov ou))"

subsection \<open>The plugin entry point: \<^verbatim>\<open>onLoad\<close> (dist/src/anchor.js)\<close>

text \<open>
  How a call ends: it returns, with the page as it left it and the cleanup function if
  there is one, or it throws, with the page as it was when the exception left.
\<close>

datatype outcome = Returned page "nat option" | Threw js_error page

text \<open>The lookup of the target element.\<close>

definition findTarget :: "page \<Rightarrow> string \<Rightarrow> js_error + nat option" where
  "findTarget pg tgt =
     (if startsWith tgt ''#'' then Inr (getElementById pg (drop 1 tgt))
      else querySelector pg tgt)"

definition onLoad :: "page \<Rightarrow> nat \<Rightarrow> string \<Rightarrow> outcome" where
  "onLoad pg el v =
     (let cfg = parseAnchorConfig (elements pg ! el) v
      in if target cfg = [] then Returned pg None
         else case findTarget pg (target cfg) of
           Inl e \<Rightarrow> Threw e pg
         | Inr None \<Rightarrow> Returned pg None
         | Inr (Some targetElement) \<Rightarrow>
             let targetId = orElse (Some (elem_id (elements pg ! targetElement)))
                              (''anchor-'' @ dateNow pg);
                 pg1 = (if elem_id (elements pg ! targetElement) = []
                        then updateElement pg targetElement (\<lambda>e. e\<lparr>elem_id := targetId\<rparr>)
                        else pg)
             in if cssAnchorSupported pg1 then
                  let anchorName = generateAnchorName targetId;
                      pg2 = updateElement pg1 targetElement (setStyle ''anchor-name'' [Str anchorName])
                  in case getAnchorCSS anchorName (placement cfg) (offsetValue cfg) (offsetUnit cfg) of
                       Inl e \<Rightarrow> Threw e pg2
                     | Inr anchorStyles \<Rightarrow>
                         Returned (updateElement pg2 el (assignStyles anchorStyles)) None
                else
                  case applyFallbackPositioningBasic pg1 el targetElement
                         (placement cfg) (offsetValue cfg) (offsetUnit cfg) of
                    (pg2, h) \<Rightarrow> Returned pg2 (Some h))"

subsection \<open>Notions used to state the properties\<close>

text \<open>The opposite side, and the fallback order as the specification documents it:
  for a centred placement the opposite side, then the two sides of the other axis; for an
  aligned placement the opposite side with the same alignment, the same side with the
  other alignment, the opposite side with the other alignment.\<close>

fun opposite :: "side \<Rightarrow> side" where
  "opposite Top = Bottom"
| "opposite Bottom = Top"
| "opposite Left = Right"
| "opposite Right = Left"

fun documented_fallbacks :: "side \<Rightarrow> alignment \<Rightarrow> (side \<times> alignment) list" where
  "documented_fallbacks s Center =
     (opposite s, Center) #
       (if vertical s then [(Left, Center), (Right, Center)] else [(Top, Center), (Bottom, Center)])"
| "documented_fallbacks s Start = [(opposite s, Start), (s, End), (opposite s, End)]"
| "documented_fallbacks s End = [(opposite s, End), (s, Start), (opposite s, Start)]"

definition documented_fallback_names :: "side \<Rightarrow> alignment \<Rightarrow> string list" where
  "documented_fallback_names s a =
     map (\<lambda>(s', a'). placement_name s' a') (documented_fallbacks s a)"

text \<open>
  Where \<^verbatim>\<open>parseAnchorConfig\<close> reads the placement and the offset from: the second
  and third non-blank comma segment of the cleaned value when it has a comma, the
  separate attributes otherwise. \<open>None\<close> is \<^verbatim>\<open>undefined\<close> or \<^verbatim>\<open>null\<close>.
\<close>

definition placementSource :: "element \<Rightarrow> string \<Rightarrow> string option" where
  "placementSource el v =
     (if CHR '','' \<in> set (cleanValue v) then nthOpt (parts (cleanValue v)) 1
      else getAttribute el ''data-anchor-placement'')"

definition offsetSource :: "element \<Rightarrow> string \<Rightarrow> string option" where
  "offsetSource el v =
     (if CHR '','' \<in> set (cleanValue v) then nthOpt (parts (cleanValue v)) 2
      else getAttribute el ''data-anchor-offset'')"

text \<open>
  The strings that the pattern \<^verbatim>\<open>/^(\d+(?:\.\d+)?)\s*([a-z%]*)?$/\<close> matches, written
  from the pattern: digits, an optional dot with digits, white space, unit characters.
\<close>

definition offsetForm :: "string \<Rightarrow> bool" where
  "offsetForm s =
     (\<exists>whole fr sp u.
        s = whole @ fr @ sp @ u \<and> whole \<noteq> [] \<and> list_all isDigit whole \<and>
        (fr = [] \<or> (\<exists>ds. fr = CHR ''.'' # ds \<and> ds \<noteq> [] \<and> list_all isDigit ds)) \<and>
        list_all isSpace sp \<and> list_all isUnitChar u)"

text \<open>The offset that the resolver makes of the text it reads.\<close>

definition offsetOf :: "string option \<Rightarrow> real \<times> string" where
  "offsetOf src =
     (case src of
        None \<Rightarrow> (8, ''px'')
      | Some raw \<Rightarrow>
          if raw = [] then (8, ''px'')
          else case offsetMatch raw of
                 None \<Rightarrow> (8, ''px'')
               | Some (g1, g2) \<Rightarrow> (parseFloat g1, if g2 = [] then ''px'' else g2))"

text \<open>The \<open>anchor-name\<close> that element \<open>i\<close> has after a call of \<^verbatim>\<open>onLoad\<close>.\<close>

definition anchorNameAfter :: "outcome \<Rightarrow> nat \<Rightarrow> css_value option" where
  "anchorNameAfter out i =
     (case out of
        Returned pg h \<Rightarrow> style (elements pg ! i) ''anchor-name''
      | Threw e pg \<Rightarrow> style (elements pg ! i) ''anchor-name'')"

text \<open>
  A rectangle, an element without attributes or styles, and a page, for the examples.
  The selector engine of the example page is given for the one selector the examples
  pass to it: \<open>$triggerRef\<close> is not a selector, and \<^verbatim>\<open>querySelector\<close> raises.
\<close>

definition exampleRect :: rect where
  "exampleRect =
     \<lparr>rect_left = 0, rect_top = 0, rect_right = 50, rect_bottom = 20,
      rect_width = 50, rect_height = 20\<rparr>"

definition plainElement :: "string \<Rightarrow> rect \<Rightarrow> element" where
  "plainElement i r =
     \<lparr>elem_id = i, attributes = Map.empty, style = Map.empty,
      boundingClientRect = r, fontSize = 16\<rparr>"

definition examplePage :: "element list \<Rightarrow> page" where
  "examplePage es =
     \<lparr>elements = es,
      querySelector = (\<lambda>sel. if sel = ''$triggerRef'' then Inl SyntaxError else Inr None),
      cssAnchorSupported = True, dateNow = ''1700000000000'', rootFontSize = 16,
      win = \<lparr>innerWidth = 1024, innerHeight = 768, scrollX = 0, scrollY = 0\<rparr>,
      listeners = []\<rparr>"

section \<open>Properties\<close>

subsection \<open>The twelve placement names\<close>

lemma includesStr_left: "includesStr (placement_name s a) ''left'' = (s = Left)"
  by (cases s; cases a; simp)

lemma includesStr_right: "includesStr (placement_name s a) ''right'' = (s = Right)"
  by (cases s; cases a; simp)

lemma includesStr_top: "includesStr (placement_name s a) ''top'' = (s = Top)"
  by (cases s; cases a; simp)

lemma includesStr_bottom: "includesStr (placement_name s a) ''bottom'' = (s = Bottom)"
  by (cases s; cases a; simp)

lemma replace_left: "replace (placement_name Left a) ''left'' ''right'' = placement_name Right a"
  by (cases a; simp)

lemma replace_right: "replace (placement_name Right a) ''right'' ''left'' = placement_name Left a"
  by (cases a; simp)

lemma replace_top: "replace (placement_name Top a) ''top'' ''bottom'' = placement_name Bottom a"
  by (cases a; simp)

lemma replace_bottom: "replace (placement_name Bottom a) ''bottom'' ''top'' = placement_name Top a"
  by (cases a; simp)

lemma basePosition_placement_name:
  "basePosition r f d (placement_name s a) =
     (fst (documented_position r f d s a), snd (documented_position r f d s a),
      placement_name s a)"
  by (cases s; cases a; simp add: basePosition_def documented_position_def)

lemma calculatePosition_placement_name:
  "calculatePosition t e px (placement_name s a) =
     (fst (documented_position t e px s a), snd (documented_position t e px s a),
      placement_name s a)"
  by (cases s; cases a; simp add: calculatePosition_def documented_position_def)

subsection \<open>The geometry engine\<close>

text \<open>
  C2. For each of the twelve placements the position that \<^verbatim>\<open>computePosition\<close> has
  before the boundary checks is the documented one: the main axis puts the floating
  element beyond the named side, \<open>d\<close> pixels away; the cross axis centres it
  (\<open>top\<close>: \<open>x = refLeft + (refWidth - floatWidth) / 2\<close>,
  \<open>y = refTop - floatHeight - offset\<close>), aligns it to the leading edge for \<open>-start\<close>
  (\<open>x = refLeft\<close>, or \<open>y = refTop\<close>) and to the trailing edge for \<open>-end\<close>
  (\<open>x = refRight - floatWidth\<close>, or \<open>y = refBottom - floatHeight\<close>). The flipping
  fallback positioner computes its candidates by the same formula.
\<close>

theorem basePosition_documented_formula:
  "basePosition r f d (placement_name s a) =
     (fst (documented_position r f d s a), snd (documented_position r f d s a),
      placement_name s a)
   \<and> calculatePosition r f d (placement_name s a) = basePosition r f d (placement_name s a)
   \<and> documented_position r f d Top Center =
       (rect_left r + (rect_width r - rect_width f) / 2, rect_top r - rect_height f - d)
   \<and> fst (documented_position r f d Top Start) = rect_left r
   \<and> fst (documented_position r f d Bottom Start) = rect_left r
   \<and> snd (documented_position r f d Left Start) = rect_top r
   \<and> snd (documented_position r f d Right Start) = rect_top r
   \<and> fst (documented_position r f d Top End) = rect_right r - rect_width f
   \<and> fst (documented_position r f d Bottom End) = rect_right r - rect_width f
   \<and> snd (documented_position r f d Left End) = rect_bottom r - rect_height f
   \<and> snd (documented_position r f d Right End) = rect_bottom r - rect_height f"
  by (simp add: basePosition_placement_name calculatePosition_placement_name
        documented_position_def)

text \<open>
  C3. The example of the specification: a reference rectangle
  \<open>{left: 100, top: 100, right: 200, bottom: 130}\<close> of 100 by 30, a floating element of
  50 by 20 (wherever it lies), placement \<open>top\<close> and an offset of 10 pixels give
  \<open>(125, 70)\<close> before any flip or scroll adjustment; in a window of 1024 by 768 that is
  not scrolled, nothing is adjusted and \<^verbatim>\<open>computePosition\<close> returns the same point.
\<close>

theorem computePosition_example_top:
  "basePosition
     \<lparr>rect_left = 100, rect_top = 100, rect_right = 200, rect_bottom = 130,
      rect_width = 100, rect_height = 30\<rparr>
     (f\<lparr>rect_width := 50, rect_height := 20\<rparr>) 10 ''top'' = (125, 70, ''top'')
   \<and> computePosition \<lparr>innerWidth = 1024, innerHeight = 768, scrollX = 0, scrollY = 0\<rparr>
     \<lparr>rect_left = 100, rect_top = 100, rect_right = 200, rect_bottom = 130,
      rect_width = 100, rect_height = 30\<rparr>
     (f\<lparr>rect_width := 50, rect_height := 20\<rparr>)
     \<lparr>opt_placement = Some ''top'', opt_offset = Some 10\<rparr> = (125, 70)"
  by (simp add: computePosition_def placed_def basePosition_def adjustX_def adjustY_def
        padding_def)

lemma adjustX_placement_name:
  "adjustX w r f d (x0, placement_name s a) =
     (if x0 < 5 then
        (if s = Left then (rect_right r + d, placement_name Right a)
         else (5, placement_name s a))
      else if x0 + rect_width f > innerWidth w - 5 then
        (if s = Right then (rect_left r - rect_width f - d, placement_name Left a)
         else (innerWidth w - rect_width f - 5, placement_name s a))
      else (x0, placement_name s a))"
  by (simp add: adjustX_def padding_def includesStr_left includesStr_right
        replace_left replace_right)

lemma adjustY_placement_name:
  "adjustY w r f d (y0, placement_name s a) =
     (if y0 < 5 then
        (if s = Top then (rect_bottom r + d, placement_name Bottom a)
         else (5, placement_name s a))
      else if y0 + rect_height f > innerHeight w - 5 then
        (if s = Bottom then (rect_top r - rect_height f - d, placement_name Top a)
         else (innerHeight w - rect_height f - 5, placement_name s a))
      else (y0, placement_name s a))"
  by (simp add: adjustY_def padding_def includesStr_top includesStr_bottom
        replace_top replace_bottom)

text \<open>
  C9. For each of the twelve placements, with \<open>(x0, y0)\<close> the base position:
  when \<open>x0 < 5\<close> (left overflow) the engine flips to the right of the reference only if
  \<open>left\<close> occurs in the placement name, and otherwise sets \<open>x\<close> to 5; when there is no
  left overflow and \<open>x0 + floatingWidth > viewportWidth - 5\<close> (right overflow) it flips to
  the left only if \<open>right\<close> occurs in the name, and otherwise sets \<open>x\<close> to
  \<open>viewportWidth - floatingWidth - 5\<close>; the same for \<open>y\<close> with \<open>top\<close> and \<open>bottom\<close>.
  The test on each axis looks at the name the engine was called with, whatever
  happened on the other axis, and a flip replaces the direction in the name by its
  opposite. \<^verbatim>\<open>computePosition\<close> returns this point moved by the scroll offsets.
\<close>

theorem computePosition_clamp_or_flip:
  "(let p = placement_name s a;
        x0 = fst (basePosition r f d p);
        y0 = fst (snd (basePosition r f d p));
        x1 = (if x0 < 5 then (if includesStr p ''left'' then rect_right r + d else 5)
              else if x0 + rect_width f > innerWidth w - 5
              then (if includesStr p ''right'' then rect_left r - rect_width f - d
                    else innerWidth w - rect_width f - 5)
              else x0);
        y1 = (if y0 < 5 then (if includesStr p ''top'' then rect_bottom r + d else 5)
              else if y0 + rect_height f > innerHeight w - 5
              then (if includesStr p ''bottom'' then rect_top r - rect_height f - d
                    else innerHeight w - rect_height f - 5)
              else y0);
        p1 = (if x0 < 5 \<and> includesStr p ''left'' then replace p ''left'' ''right''
              else if \<not> x0 < 5 \<and> x0 + rect_width f > innerWidth w - 5 \<and>
                      includesStr p ''right'' then replace p ''right'' ''left''
              else if y0 < 5 \<and> includesStr p ''top'' then replace p ''top'' ''bottom''
              else if \<not> y0 < 5 \<and> y0 + rect_height f > innerHeight w - 5 \<and>
                      includesStr p ''bottom'' then replace p ''bottom'' ''top''
              else p)
    in placed w r f d p = (x1, y1, p1) \<and>
       computePosition w r f \<lparr>opt_placement = Some p, opt_offset = Some d\<rparr> =
         (x1 + scrollX w, y1 + scrollY w))"
  by (cases s)
     (simp_all add: Let_def computePosition_def placed_def basePosition_placement_name
        adjustX_placement_name adjustY_placement_name includesStr_left includesStr_right
        includesStr_top includesStr_bottom replace_left replace_right replace_top
        replace_bottom)

text \<open>
  Two examples at the left edge of a window of 800 by 600: \<open>top\<close> has no \<open>left\<close> in
  its name, so \<open>x\<close> is set to 5; \<open>left\<close> flips to the right of the reference.
\<close>

theorem computePosition_clamp_or_flip_witness:
  "computePosition \<lparr>innerWidth = 800, innerHeight = 600, scrollX = 0, scrollY = 0\<rparr>
     \<lparr>rect_left = 0, rect_top = 100, rect_right = 40, rect_bottom = 130,
      rect_width = 40, rect_height = 30\<rparr> exampleRect
     \<lparr>opt_placement = Some ''top'', opt_offset = Some 8\<rparr> = (5, 72)
   \<and> placed \<lparr>innerWidth = 800, innerHeight = 600, scrollX = 0, scrollY = 0\<rparr>
     \<lparr>rect_left = 0, rect_top = 100, rect_right = 40, rect_bottom = 130,
      rect_width = 40, rect_height = 30\<rparr> exampleRect 8 ''left'' = (48, 105, ''right'')"
  using computePosition_clamp_or_flip
          [of Top Center
              "\<lparr>rect_left = 0, rect_top = 100, rect_right = 40, rect_bottom = 130,
                rect_width = 40, rect_height = 30\<rparr>" exampleRect 8
              "\<lparr>innerWidth = 800, innerHeight = 600, scrollX = 0, scrollY = 0\<rparr>"]
        computePosition_clamp_or_flip
          [of Left Center
              "\<lparr>rect_left = 0, rect_top = 100, rect_right = 40, rect_bottom = 130,
                rect_width = 40, rect_height = 30\<rparr>" exampleRect 8
              "\<lparr>innerWidth = 800, innerHeight = 600, scrollX = 0, scrollY = 0\<rparr>"]
  by (simp add: basePosition_def exampleRect_def Let_def)

subsection \<open>Unit conversion\<close>

text \<open>
  C4. Converting an offset to pixels: \<open>px\<close> is the identity; \<open>rem\<close> multiplies by the
  root font size, so \<open>1rem\<close> is the root font size; \<open>em\<close> multiplies by the font size
  of the floating element; \<open>vw\<close> and \<open>vh\<close> give the value divided by 100 times the
  width or the height of the viewport, so \<open>50vw\<close> is half the width; \<open>%\<close> leaves the
  number as it is.
\<close>

theorem offsetPx_units:
  "offsetPx pg el v ''px'' = v
   \<and> offsetPx pg el v ''rem'' = v * rootFontSize pg
   \<and> offsetPx pg el 1 ''rem'' = rootFontSize pg
   \<and> offsetPx pg el v ''em'' = v * fontSize el
   \<and> offsetPx pg el v ''vw'' = v / 100 * innerWidth (win pg)
   \<and> offsetPx pg el v ''vh'' = v / 100 * innerHeight (win pg)
   \<and> offsetPx pg el 50 ''vw'' = innerWidth (win pg) / 2
   \<and> offsetPx pg el v ''%'' = v"
  by (simp add: offsetPx_def)

subsection \<open>The placement resolver\<close>

lemma trim_Nil: "trim [] = []"
  by (simp add: trim_def)

lemma split_no_delim: "d \<notin> set a \<Longrightarrow> split d a = [a]"
  by (induction a) auto

lemma split_append: "d \<notin> set a \<Longrightarrow> split d (a @ d # rest) = a # split d rest"
  by (induction a) auto

lemma offsetMatch_8: "offsetMatch ''8'' = Some (''8'', [])"
  by (simp add: offsetMatch_def isDigit_def)

lemma parseFloat_8: "parseFloat ''8'' = 8"
  by (simp add: parseFloat_def isDigit_def digitsValue_def digitValue_def)

lemma parseFloat_nonneg: "0 \<le> parseFloat s"
  by (simp add: parseFloat_def Let_def)

text \<open>
  The scan \<open>offsetMatch\<close> and the pattern agree: the scan finds a match exactly on
  the strings of the pattern's language, with the pattern's groups.
\<close>

lemma digit_not_other:
  "isDigit c \<Longrightarrow> \<not> isSpace c \<and> \<not> isUnitChar c \<and> c \<noteq> CHR ''.''"
  by (auto simp: isDigit_def isSpace_def isUnitChar_def)

lemma space_not_unit: "isSpace c \<Longrightarrow> \<not> isUnitChar c \<and> c \<noteq> CHR ''.''"
  by (auto simp: isSpace_def isUnitChar_def)

lemma unit_not_dot: "isUnitChar c \<Longrightarrow> c \<noteq> CHR ''.''"
  by (auto simp: isUnitChar_def)

lemma takeWhile_all: "list_all P xs \<Longrightarrow> takeWhile P xs = xs"
  by (simp add: list_all_iff takeWhile_eq_all_conv)

lemma dropWhile_all: "list_all P xs \<Longrightarrow> dropWhile P xs = []"
  by (simp add: list_all_iff)

lemma takeWhile_prefix:
  "list_all P xs \<Longrightarrow> takeWhile P ys = [] \<Longrightarrow> takeWhile P (xs @ ys) = xs"
  by (simp add: list_all_iff takeWhile_append2)

lemma dropWhile_prefix:
  "list_all P xs \<Longrightarrow> dropWhile P (xs @ ys) = dropWhile P ys"
  by (simp add: list_all_iff dropWhile_append2)

lemma takeWhile_digit_tail:
  assumes "list_all isSpace sp" and "list_all isUnitChar u"
  shows "takeWhile isDigit (sp @ u) = []"
  using assms digit_not_other by (cases sp; cases u; auto)

lemma dropWhile_digit_tail:
  assumes "list_all isSpace sp" and "list_all isUnitChar u"
  shows "dropWhile isDigit (sp @ u) = sp @ u"
  using assms digit_not_other by (cases sp; cases u; auto)

lemma tail_not_dot:
  assumes "list_all isSpace sp" and "list_all isUnitChar u"
  shows "sp @ u = [] \<or> hd (sp @ u) \<noteq> CHR ''.''"
  using assms space_not_unit unit_not_dot by (cases sp; cases u; auto)

lemma takeWhile_space_unit:
  assumes "list_all isUnitChar u"
  shows "takeWhile isSpace u = []" "dropWhile isSpace u = u"
  using assms space_not_unit by (cases u; auto)+

lemma offsetMatch_tail:
  assumes "list_all isSpace sp" and "list_all isUnitChar u"
  shows "dropWhile isSpace (sp @ u) = u"
    and "takeWhile isUnitChar u = u"
    and "\<forall>c\<in>set u. isUnitChar c"
  using assms
  by (simp_all add: dropWhile_prefix takeWhile_space_unit takeWhile_all list_all_iff)

lemma offsetMatch_form:
  assumes w: "whole \<noteq> []" "list_all isDigit whole"
    and f: "fr = [] \<or> (\<exists>ds. fr = CHR ''.'' # ds \<and> ds \<noteq> [] \<and> list_all isDigit ds)"
    and t: "list_all isSpace sp" "list_all isUnitChar u"
  shows "offsetMatch (whole @ fr @ sp @ u) = Some (whole @ fr, u)"
proof (cases "fr = []")
  case True
  have tw: "takeWhile isDigit (whole @ sp @ u) = whole"
    using w t by (simp add: takeWhile_prefix takeWhile_digit_tail)
  have dw: "dropWhile isDigit (whole @ sp @ u) = sp @ u"
    using w t by (simp add: dropWhile_prefix dropWhile_digit_tail)
  have nf: "(case sp @ u of c # r \<Rightarrow> if c = CHR ''.'' then takeWhile isDigit r else []
             | [] \<Rightarrow> []) = []"
    using tail_not_dot [OF t] by (cases "sp @ u") auto
  show ?thesis
    using True w
    by (simp add: offsetMatch_def tw dw nf Let_def offsetMatch_tail [OF t])
next
  case False
  then obtain ds where ds: "fr = CHR ''.'' # ds" "ds \<noteq> []" "list_all isDigit ds"
    using f by auto
  have nd: "\<not> isDigit (CHR ''.'')"
    by (simp add: isDigit_def)
  have tw: "takeWhile isDigit (whole @ CHR ''.'' # ds @ sp @ u) = whole"
    using w nd by (simp add: list_all_iff takeWhile_append2)
  have dw: "dropWhile isDigit (whole @ CHR ''.'' # ds @ sp @ u) = CHR ''.'' # ds @ sp @ u"
    using w nd by (simp add: list_all_iff dropWhile_append2)
  have fr: "takeWhile isDigit (ds @ sp @ u) = ds"
    using ds t by (simp add: takeWhile_prefix takeWhile_digit_tail)
  show ?thesis
    using ds w
    by (simp add: offsetMatch_def tw dw fr Let_def offsetMatch_tail [OF t])
qed

lemma offsetMatch_sound:
  assumes "offsetMatch s = Some (g1, g2)"
  shows "offsetForm s"
proof -
  define whole where "whole = takeWhile isDigit s"
  define r1 where "r1 = dropWhile isDigit s"
  define fr where "fr = (case r1 of c # r \<Rightarrow> if c = CHR ''.'' then takeWhile isDigit r else []
                       | [] \<Rightarrow> [])"
  define r2 where "r2 = drop (length (if fr = [] then whole else whole @ ''.'' @ fr)) s"
  define sp where "sp = takeWhile isSpace r2"
  define u where "u = dropWhile isSpace r2"
  have s: "s = whole @ r1"
    by (simp add: whole_def r1_def)
  have "offsetMatch s =
      (if whole = [] then None
       else if dropWhile isUnitChar u = []
            then Some (if fr = [] then whole else whole @ ''.'' @ fr, takeWhile isUnitChar u)
            else None)"
    by (simp only: offsetMatch_def Let_def whole_def r1_def fr_def r2_def u_def)
  with assms have m: "whole \<noteq> []" "dropWhile isUnitChar u = []"
    by (auto split: if_splits)
  have wd: "list_all isDigit whole"
    by (simp add: whole_def list_all_iff) (meson set_takeWhileD)
  have spd: "list_all isSpace sp"
    by (simp add: sp_def list_all_iff) (meson set_takeWhileD)
  have ud: "list_all isUnitChar u"
    using m(2) by (simp add: list_all_iff)
  have r2: "r2 = sp @ u"
    by (simp add: sp_def u_def)
  show ?thesis
  proof (cases "fr = []")
    case True
    then have "r2 = r1"
      by (simp add: r2_def s)
    then have "s = whole @ [] @ sp @ u"
      using s r2 by simp
    then show ?thesis
      unfolding offsetForm_def using m(1) wd spd ud by blast
  next
    case False
    then obtain r where r: "r1 = CHR ''.'' # r" "fr = takeWhile isDigit r"
      by (auto simp: fr_def split: list.splits if_splits)
    have fd: "list_all isDigit fr"
      by (simp add: r(2) list_all_iff) (meson set_takeWhileD)
    have "s = whole @ CHR ''.'' # fr @ dropWhile isDigit r"
      using s r by simp
    moreover from this have "r2 = dropWhile isDigit r"
      using False by (simp add: r2_def)
    ultimately have "s = whole @ (CHR ''.'' # fr) @ sp @ u"
      using r2 by simp
    then show ?thesis
      unfolding offsetForm_def using m(1) wd spd ud fd False by blast
  qed
qed

lemma offsetMatch_None_iff: "offsetMatch s = None \<longleftrightarrow> \<not> offsetForm s"
proof
  assume "offsetMatch s = None"
  show "\<not> offsetForm s"
  proof
    assume "offsetForm s"
    then obtain whole fr sp u where
      "s = whole @ fr @ sp @ u" "whole \<noteq> []" "list_all isDigit whole"
      "fr = [] \<or> (\<exists>ds. fr = CHR ''.'' # ds \<and> ds \<noteq> [] \<and> list_all isDigit ds)"
      "list_all isSpace sp" "list_all isUnitChar u"
      unfolding offsetForm_def by blast
    then have "offsetMatch s = Some (whole @ fr, u)"
      using offsetMatch_form by blast
    with \<open>offsetMatch s = None\<close> show False by simp
  qed
next
  assume "\<not> offsetForm s"
  then show "offsetMatch s = None"
    using offsetMatch_sound by (cases "offsetMatch s") auto
qed

text \<open>Bare numbers: digits, or digits with a decimal part, and no unit.\<close>

lemma offsetMatch_digits:
  assumes "raw \<noteq> []" and "list_all isDigit raw"
  shows "offsetMatch raw = Some (raw, [])"
  using offsetMatch_form [of raw "[]" "[]" "[]"] assms by simp

lemma offsetMatch_decimal:
  assumes "whole \<noteq> []" and "list_all isDigit whole" and "ds \<noteq> []" and "list_all isDigit ds"
  shows "offsetMatch (whole @ CHR ''.'' # ds) = Some (whole @ CHR ''.'' # ds, [])"
  using offsetMatch_form [of whole "CHR ''.'' # ds" "[]" "[]"] assms by simp

lemma parseFloat_digits:
  assumes "list_all isDigit raw"
  shows "parseFloat raw = real (digitsValue raw)"
  using assms by (simp add: parseFloat_def takeWhile_all digitsValue_def)

lemma parseFloat_decimal:
  assumes "list_all isDigit whole"
  shows "parseFloat (whole @ CHR ''.'' # ds) =
           real (digitsValue whole) + real (digitsValue ds) / 10 ^ length ds"
proof -
  have nd: "\<not> isDigit (CHR ''.'')"
    by (simp add: isDigit_def)
  have "takeWhile isDigit (whole @ CHR ''.'' # ds) = whole"
    using assms nd by (simp add: list_all_iff takeWhile_append2)
  then show ?thesis
    by (simp add: parseFloat_def)
qed

text \<open>The two branches of the resolver.\<close>

lemma parseAnchorConfig_comma:
  assumes "CHR '','' \<in> set (cleanValue v)"
  shows "parseAnchorConfig el v =
     \<lparr>target = orElse (nthOpt (parts (cleanValue v)) 0) [],
      placement = orElse (nthOpt (parts (cleanValue v)) 1) ''bottom'',
      offsetValue = fst (offsetOf (nthOpt (parts (cleanValue v)) 2)),
      offsetUnit = snd (offsetOf (nthOpt (parts (cleanValue v)) 2))\<rparr>"
  using assms
  by (simp add: parseAnchorConfig_def Let_def offsetOf_def split: option.split prod.split)

lemma parseAnchorConfig_attributes:
  assumes "CHR '','' \<notin> set (cleanValue v)"
  shows "parseAnchorConfig el v =
     \<lparr>target = orElse (Some (cleanValue v)) (orElse (getAttribute el ''data-anchor'') []),
      placement = orElse (getAttribute el ''data-anchor-placement'') ''bottom'',
      offsetValue = fst (offsetOf (getAttribute el ''data-anchor-offset'')),
      offsetUnit = snd (offsetOf (getAttribute el ''data-anchor-offset''))\<rparr>"
proof (cases "getAttribute el ''data-anchor-offset''")
  case None
  then show ?thesis
    using assms
    by (simp add: parseAnchorConfig_def Let_def offsetOf_def offsetMatch_8 parseFloat_8)
next
  case (Some raw)
  then show ?thesis
    using assms
    by (cases "raw = []")
       (simp_all add: parseAnchorConfig_def Let_def offsetOf_def offsetMatch_8 parseFloat_8
          split: option.split prod.split)
qed

lemma parseAnchorConfig_sources:
  "placement (parseAnchorConfig el v) = orElse (placementSource el v) ''bottom''"
  "offsetValue (parseAnchorConfig el v) = fst (offsetOf (offsetSource el v))"
  "offsetUnit (parseAnchorConfig el v) = snd (offsetOf (offsetSource el v))"
  by (cases "CHR '','' \<in> set (cleanValue v)";
      simp add: parseAnchorConfig_comma parseAnchorConfig_attributes placementSource_def
        offsetSource_def)+

text \<open>Values used in the examples.\<close>

lemma cleanValue_examples:
  "cleanValue ''#t'' = ''#t''"
  "cleanValue ''#t, top, abc'' = ''#t, top, abc''"
  "cleanValue ''#t, top, 12'' = ''#t, top, 12''"
  "cleanValue ''#t, top, 1.5'' = ''#t, top, 1.5''"
  "cleanValue ''#t, left, 4rem'' = ''#t, left, 4rem''"
  "cleanValue ''#t, , 10px'' = ''#t, , 10px''"
  "cleanValue ''#t,'' = ''#t,''"
  "cleanValue ''$triggerRef'' = ''$triggerRef''"
  "cleanValue ''#user_name'' = ''#user_name''"
  "cleanValue ''#user-name'' = ''#user-name''"
  by (simp_all add: cleanValue_def stripQuotes_def trim_def isQuote_def isSpace_def)

lemma parts_examples:
  "parts ''#t, top, abc'' = [''#t'', ''top'', ''abc'']"
  "parts ''#t, top, 12'' = [''#t'', ''top'', ''12'']"
  "parts ''#t, top, 1.5'' = [''#t'', ''top'', ''1.5'']"
  "parts ''#t, left, 4rem'' = [''#t'', ''left'', ''4rem'']"
  by (simp_all add: parts_def trim_def isSpace_def)

lemma offsetMatch_examples:
  "offsetMatch ''abc'' = None"
  "offsetMatch ''4rem'' = Some (''4'', ''rem'')"
  by (simp_all add: offsetMatch_def isDigit_def isSpace_def isUnitChar_def)

lemma parseFloat_4: "parseFloat ''4'' = 4"
  by (simp add: parseFloat_def isDigit_def digitsValue_def digitValue_def)

text \<open>
  C5. Parsing has no failing branch: it returns a configuration for every element
  and every raw value, with a placement and a unit that are never empty and an offset
  that is never negative. When the placement is not given, it is \<open>bottom\<close>. When the
  offset is not given, or the text given for it is not of the form of the pattern
  (digits, an optional decimal part, an optional unit), the offset is 8 with the unit
  \<open>px\<close>. A bare number, with or without a decimal part, is taken with the unit \<open>px\<close>.
\<close>

theorem parseAnchorConfig_defaults:
  "(placementSource el v = None \<or> placementSource el v = Some [] \<longrightarrow>
      placement (parseAnchorConfig el v) = ''bottom'')
   \<and> (offsetSource el v = None \<or> offsetSource el v = Some [] \<longrightarrow>
      offsetValue (parseAnchorConfig el v) = 8 \<and> offsetUnit (parseAnchorConfig el v) = ''px'')
   \<and> (offsetSource el v = Some raw \<and> \<not> offsetForm raw \<longrightarrow>
      offsetValue (parseAnchorConfig el v) = 8 \<and> offsetUnit (parseAnchorConfig el v) = ''px'')
   \<and> (offsetSource el v = Some raw \<and> raw \<noteq> [] \<and> list_all isDigit raw \<longrightarrow>
      offsetValue (parseAnchorConfig el v) = real (digitsValue raw) \<and>
      offsetUnit (parseAnchorConfig el v) = ''px'')
   \<and> (offsetSource el v = Some (whole @ CHR ''.'' # ds) \<and> whole \<noteq> [] \<and>
      list_all isDigit whole \<and> ds \<noteq> [] \<and> list_all isDigit ds \<longrightarrow>
      offsetValue (parseAnchorConfig el v) =
        real (digitsValue whole) + real (digitsValue ds) / 10 ^ length ds \<and>
      offsetUnit (parseAnchorConfig el v) = ''px'')
   \<and> placement (parseAnchorConfig el v) \<noteq> []
   \<and> offsetUnit (parseAnchorConfig el v) \<noteq> []
   \<and> 0 \<le> offsetValue (parseAnchorConfig el v)"
proof -
  have P: "placement (parseAnchorConfig el v) \<noteq> []"
    by (cases "placementSource el v") (auto simp: parseAnchorConfig_sources)
  show ?thesis
    using P
    by (auto simp: parseAnchorConfig_sources offsetOf_def offsetMatch_digits parseFloat_digits
          offsetMatch_decimal parseFloat_decimal
          parseFloat_nonneg offsetMatch_None_iff [symmetric] split: option.splits)
qed

theorem parseAnchorConfig_defaults_witness:
  "placement (parseAnchorConfig (plainElement ''tip'' exampleRect) ''#t'') = ''bottom''
   \<and> offsetValue (parseAnchorConfig (plainElement ''tip'' exampleRect) ''#t'') = 8
   \<and> offsetUnit (parseAnchorConfig (plainElement ''tip'' exampleRect) ''#t'') = ''px''
   \<and> offsetValue (parseAnchorConfig (plainElement ''tip'' exampleRect) ''#t, top, abc'') = 8
   \<and> offsetUnit (parseAnchorConfig (plainElement ''tip'' exampleRect) ''#t, top, abc'') = ''px''
   \<and> offsetValue (parseAnchorConfig (plainElement ''tip'' exampleRect) ''#t, top, 12'') = 12
   \<and> offsetUnit (parseAnchorConfig (plainElement ''tip'' exampleRect) ''#t, top, 12'') = ''px''
   \<and> offsetValue (parseAnchorConfig (plainElement ''tip'' exampleRect) ''#t, top, 1.5'') = 3 / 2
   \<and> offsetUnit (parseAnchorConfig (plainElement ''tip'' exampleRect) ''#t, top, 1.5'') = ''px''"
  using parseAnchorConfig_defaults
          [where el = "plainElement ''tip'' exampleRect" and v = "''#t''" and raw = "[]"
             and whole = "[]" and ds = "[]"]
        parseAnchorConfig_defaults
          [where el = "plainElement ''tip'' exampleRect" and v = "''#t, top, abc''"
             and raw = "''abc''" and whole = "[]" and ds = "[]"]
        parseAnchorConfig_defaults
          [where el = "plainElement ''tip'' exampleRect" and v = "''#t, top, 12''"
             and raw = "''12''" and whole = "[]" and ds = "[]"]
        parseAnchorConfig_defaults
          [where el = "plainElement ''tip'' exampleRect" and v = "''#t, top, 1.5''"
             and raw = "[]" and whole = "''1''" and ds = "''5''"]
  by (simp add: placementSource_def offsetSource_def cleanValue_examples parts_examples
        offsetMatch_examples nthOpt_def getAttribute_def plainElement_def isDigit_def
        digitsValue_def digitValue_def offsetMatch_None_iff [symmetric])

text \<open>
  C6. When the cleaned value contains a comma, the configuration is the same whatever
  element carries it: placement and offset come from the comma segments, and the
  separate attributes play no part. When it contains no comma, placement and offset
  come from the attributes \<open>data-anchor-placement\<close> and \<open>data-anchor-offset\<close>.
\<close>

theorem parseAnchorConfig_precedence:
  "(CHR '','' \<in> set (cleanValue v) \<longrightarrow>
      parseAnchorConfig el v = parseAnchorConfig el' v \<and>
      placement (parseAnchorConfig el v) = orElse (nthOpt (parts (cleanValue v)) 1) ''bottom'' \<and>
      (offsetValue (parseAnchorConfig el v), offsetUnit (parseAnchorConfig el v)) =
        offsetOf (nthOpt (parts (cleanValue v)) 2))
   \<and> (CHR '','' \<notin> set (cleanValue v) \<longrightarrow>
      placement (parseAnchorConfig el v) =
        orElse (getAttribute el ''data-anchor-placement'') ''bottom'' \<and>
      (offsetValue (parseAnchorConfig el v), offsetUnit (parseAnchorConfig el v)) =
        offsetOf (getAttribute el ''data-anchor-offset''))"
  by (simp add: parseAnchorConfig_comma parseAnchorConfig_attributes)

theorem parseAnchorConfig_precedence_witness:
  "parseAnchorConfig
     (setAttribute ''data-anchor-offset'' ''20px''
        (setAttribute ''data-anchor-placement'' ''top'' (plainElement ''tip'' exampleRect)))
     ''#t, left, 4rem'' =
     \<lparr>target = ''#t'', placement = ''left'', offsetValue = 4, offsetUnit = ''rem''\<rparr>
   \<and> placement (parseAnchorConfig
        (setAttribute ''data-anchor-offset'' ''20px''
           (setAttribute ''data-anchor-placement'' ''top'' (plainElement ''tip'' exampleRect)))
        ''#t'') = ''top''"
  using parseAnchorConfig_precedence
          [where v = "''#t, left, 4rem''" and el' = "plainElement ''tip'' exampleRect"
             and el = "setAttribute ''data-anchor-offset'' ''20px''
               (setAttribute ''data-anchor-placement'' ''top'' (plainElement ''tip'' exampleRect))"]
        parseAnchorConfig_precedence
          [where v = "''#t''" and el' = "plainElement ''tip'' exampleRect"
             and el = "setAttribute ''data-anchor-offset'' ''20px''
               (setAttribute ''data-anchor-placement'' ''top'' (plainElement ''tip'' exampleRect))"]
  by (simp add: cleanValue_examples parts_examples offsetMatch_examples nthOpt_def
        getAttribute_def plainElement_def setAttribute_def offsetOf_def parseFloat_4
        parseAnchorConfig_comma)

text \<open>
  C10. Blank comma segments are dropped before the roles are given out by position.
  For a cleaned value \<open>a,b,c\<close> whose middle segment \<open>b\<close> is blank and whose other two are
  not, the third segment becomes the placement and the offset stays 8 pixels. A cleaned
  value \<open>a,\<close> still takes the comma branch: the placement is \<open>bottom\<close> and the offset 8
  pixels, whatever the attributes of the element say.
\<close>

theorem parseAnchorConfig_blank_segments:
  "(cleanValue v = a @ '','' @ b @ '','' @ c \<and> CHR '','' \<notin> set a \<and> CHR '','' \<notin> set b \<and>
    CHR '','' \<notin> set c \<and> trim a \<noteq> [] \<and> trim b = [] \<and> trim c \<noteq> [] \<longrightarrow>
      parseAnchorConfig el v =
        \<lparr>target = trim a, placement = trim c, offsetValue = 8, offsetUnit = ''px''\<rparr>)
   \<and> (cleanValue v = a @ '','' \<and> CHR '','' \<notin> set a \<longrightarrow>
      parseAnchorConfig el v =
        \<lparr>target = trim a, placement = ''bottom'', offsetValue = 8, offsetUnit = ''px''\<rparr>)"
  by (auto simp: parseAnchorConfig_comma parts_def split_append split_no_delim nthOpt_def
        offsetOf_def trim_Nil)

theorem parseAnchorConfig_blank_segments_witness:
  "parseAnchorConfig (plainElement ''tip'' exampleRect) ''#t, , 10px'' =
     \<lparr>target = ''#t'', placement = ''10px'', offsetValue = 8, offsetUnit = ''px''\<rparr>
   \<and> parseAnchorConfig
        (setAttribute ''data-anchor-placement'' ''top'' (plainElement ''tip'' exampleRect))
        ''#t,'' =
     \<lparr>target = ''#t'', placement = ''bottom'', offsetValue = 8, offsetUnit = ''px''\<rparr>"
  using parseAnchorConfig_blank_segments
          [where v = "''#t, , 10px''" and a = "''#t''" and b = "'' ''" and c = "'' 10px''"
             and el = "plainElement ''tip'' exampleRect"]
        parseAnchorConfig_blank_segments
          [where v = "''#t,''" and a = "''#t''" and b = "[]" and c = "[]"
             and el = "setAttribute ''data-anchor-placement'' ''top''
                         (plainElement ''tip'' exampleRect)"]
  by (simp add: cleanValue_examples trim_def isSpace_def)

subsection \<open>The fallback positioner with flipping\<close>

lemma fallbackPlacements_placement_name:
  "fallbackPlacements (placement_name s a) = Inr (documented_fallback_names s a)"
  by (cases s; cases a;
      simp add: fallbackPlacements_def fallbacks_def documented_fallback_names_def)

lemma documented_fallback_names_table:
  "documented_fallback_names Top Center = [''bottom'', ''left'', ''right'']"
  "documented_fallback_names Top Start = [''bottom-start'', ''top-end'', ''bottom-end'']"
  "documented_fallback_names Top End = [''bottom-end'', ''top-start'', ''bottom-start'']"
  "documented_fallback_names Bottom Center = [''top'', ''left'', ''right'']"
  "documented_fallback_names Bottom Start = [''top-start'', ''bottom-end'', ''top-end'']"
  "documented_fallback_names Bottom End = [''top-end'', ''bottom-start'', ''top-start'']"
  "documented_fallback_names Left Center = [''right'', ''top'', ''bottom'']"
  "documented_fallback_names Left Start = [''right-start'', ''left-end'', ''right-end'']"
  "documented_fallback_names Left End = [''right-end'', ''left-start'', ''right-start'']"
  "documented_fallback_names Right Center = [''left'', ''top'', ''bottom'']"
  "documented_fallback_names Right Start = [''left-start'', ''right-end'', ''left-end'']"
  "documented_fallback_names Right End = [''left-end'', ''right-start'', ''left-start'']"
  by (simp_all add: documented_fallback_names_def)

lemma tryFallbacks_find:
  "tryFallbacks w t e px fs pos =
     (case find (isWithinViewport w e) (map (calculatePosition t e px) fs) of
        Some q \<Rightarrow> q
      | None \<Rightarrow> pos)"
  by (induction fs) (simp_all add: Let_def)

text \<open>
  C1. The flip policy of the fallback positioner, for each of the twelve placements:
  when the position computed for the requested placement lies within
  \<open>[padding, viewport - padding]\<close> on both axes it is kept; otherwise the candidates of the
  fallback list of that placement are computed in order and the first that fits on both
  axes is taken; when none fits, the position of the requested placement is kept as it
  is, and nothing fails. The fallback list of \<open>top\<close> is \<open>bottom, left, right\<close>, that of
  \<open>top-start\<close> is \<open>bottom-start, top-end, bottom-end\<close>, and the other ten follow the same
  two patterns.
\<close>

theorem fallback_flip_policy:
  "finalPosition w t e px (placement_name s a) =
     Inr (let primary = calculatePosition t e px (placement_name s a)
          in if isWithinViewport w e primary then primary
             else case find (isWithinViewport w e)
                         (map (calculatePosition t e px) (documented_fallback_names s a)) of
                    Some q \<Rightarrow> q
                  | None \<Rightarrow> primary)
   \<and> map_of fallbacks (placement_name s a) = Some (documented_fallback_names s a)
   \<and> getPositionTryOptions (placement_name s a) =
       Inr (join '', '' (map (\<lambda>p. ''flip-'' @ p) (documented_fallback_names s a)))
   \<and> documented_fallback_names Top Center = [''bottom'', ''left'', ''right'']
   \<and> documented_fallback_names Top Start = [''bottom-start'', ''top-end'', ''bottom-end'']"
proof -
  have T: "map_of fallbacks (placement_name s a) = Some (documented_fallback_names s a)"
    by (cases s; cases a; simp add: fallbacks_def documented_fallback_names_def)
  have E: "documented_fallback_names Top Center = [''bottom'', ''left'', ''right'']"
    "documented_fallback_names Top Start = [''bottom-start'', ''top-end'', ''bottom-end'']"
    by (rule documented_fallback_names_table)+
  have G: "getPositionTryOptions (placement_name s a) =
      Inr (join '', '' (map (\<lambda>p. ''flip-'' @ p) (documented_fallback_names s a)))"
    by (simp only: getPositionTryOptions_def fallbackPlacements_placement_name sum.case)
  have F: "finalPosition w t e px (placement_name s a) =
     Inr (let primary = calculatePosition t e px (placement_name s a)
          in if isWithinViewport w e primary then primary
             else case find (isWithinViewport w e)
                         (map (calculatePosition t e px) (documented_fallback_names s a)) of
                    Some q \<Rightarrow> q
                  | None \<Rightarrow> primary)"
    by (simp add: finalPosition_def fallbackPlacements_placement_name tryFallbacks_find Let_def)
  show ?thesis
    using T E G F by (intro conjI)
qed

text \<open>
  An example: a reference at the top edge of the window. \<open>top\<close> would put the floating
  element above the window, so the first fallback that fits, \<open>bottom\<close>, is taken. With
  a window too small for any candidate, the position of \<open>top\<close> is kept.
\<close>

theorem fallback_flip_policy_witness:
  "finalPosition \<lparr>innerWidth = 800, innerHeight = 600, scrollX = 0, scrollY = 0\<rparr>
     \<lparr>rect_left = 100, rect_top = 0, rect_right = 200, rect_bottom = 30,
      rect_width = 100, rect_height = 30\<rparr> exampleRect 8 ''top'' = Inr (125, 38, ''bottom'')
   \<and> finalPosition \<lparr>innerWidth = 40, innerHeight = 30, scrollX = 0, scrollY = 0\<rparr>
     \<lparr>rect_left = 100, rect_top = 0, rect_right = 200, rect_bottom = 30,
      rect_width = 100, rect_height = 30\<rparr> exampleRect 8 ''top'' = Inr (125, - 28, ''top'')"
  using fallback_flip_policy
          [of "\<lparr>innerWidth = 800, innerHeight = 600, scrollX = 0, scrollY = 0\<rparr>"
              "\<lparr>rect_left = 100, rect_top = 0, rect_right = 200, rect_bottom = 30,
                rect_width = 100, rect_height = 30\<rparr>" exampleRect 8 Top Center]
        fallback_flip_policy
          [of "\<lparr>innerWidth = 40, innerHeight = 30, scrollX = 0, scrollY = 0\<rparr>"
              "\<lparr>rect_left = 100, rect_top = 0, rect_right = 200, rect_bottom = 30,
                rect_width = 100, rect_height = 30\<rparr>" exampleRect 8 Top Center]
  by (simp add: calculatePosition_def isWithinViewport_def flipPadding_def
        documented_fallback_names_def exampleRect_def)

subsection \<open>The plugin entry point\<close>

text \<open>The two guarded returns of \<^verbatim>\<open>onLoad\<close> leave the page as it is.\<close>

lemma onLoad_no_target:
  "target (parseAnchorConfig (elements pg ! el) v) = [] \<Longrightarrow> onLoad pg el v = Returned pg None"
  by (simp add: onLoad_def Let_def)

lemma onLoad_not_found:
  "findTarget pg (target (parseAnchorConfig (elements pg ! el) v)) = Inr None \<Longrightarrow>
   onLoad pg el v = Returned pg None"
  by (simp add: onLoad_def Let_def)

text \<open>An exception of the lookup leaves \<^verbatim>\<open>onLoad\<close>: there is no \<^verbatim>\<open>try\<close> around it.\<close>

lemma onLoad_lookup_throws:
  "target (parseAnchorConfig (elements pg ! el) v) \<noteq> [] \<Longrightarrow>
   findTarget pg (target (parseAnchorConfig (elements pg ! el) v)) = Inl e \<Longrightarrow>
   onLoad pg el v = Threw e pg"
  by (simp add: onLoad_def Let_def)

text \<open>
  C7. The claim is that \<^verbatim>\<open>onLoad\<close> returns, without throwing and without changing an
  element, whenever the target is empty or no element matches it. The code does so when
  the target is empty and when the lookup answers \<^verbatim>\<open>null\<close> (the two lemmas above). It
  does not when the target is not a selector: for the value \<open>$triggerRef\<close> the target
  is \<open>$triggerRef\<close>, \<^verbatim>\<open>document.querySelector\<close> raises a \<^verbatim>\<open>SyntaxError\<close>, and the
  exception leaves \<^verbatim>\<open>onLoad\<close>.
\<close>

theorem onLoad_invalid_selector_throws:
  "onLoad (examplePage [plainElement ''tip'' exampleRect]) 0 ''$triggerRef'' =
     Threw SyntaxError (examplePage [plainElement ''tip'' exampleRect])"
  by (simp add: onLoad_def Let_def parseAnchorConfig_attributes cleanValue_examples
        findTarget_def getAttribute_def examplePage_def plainElement_def)

subsection \<open>Anchor names\<close>

lemma generateAnchorName_inj_alnum:
  assumes "\<forall>c\<in>set a. isAlnum c" and "\<forall>c\<in>set b. isAlnum c"
    and "generateAnchorName a = generateAnchorName b"
  shows "a = b"
proof -
  have "map (\<lambda>c. if isAlnum c then c else CHR ''-'') a = a"
    using assms(1) by (simp add: map_idI)
  moreover have "map (\<lambda>c. if isAlnum c then c else CHR ''-'') b = b"
    using assms(2) by (simp add: map_idI)
  ultimately show ?thesis
    using assms(3) by (simp add: generateAnchorName_def)
qed

text \<open>
  C8. The claim is that the anchor name is a function of the id of the target,
  \<open>--anchor-\<close> followed by the id with every character outside \<open>[a-zA-Z0-9]\<close> replaced by
  \<open>-\<close>, and that distinct ids give distinct names. The first part holds by the
  definition; the second does not: the ids \<open>user_name\<close> and \<open>user-name\<close> are distinct
  and both get the name \<open>--anchor-user-name\<close>. On a page with both targets, the two
  calls of \<^verbatim>\<open>onLoad\<close> write the same \<open>anchor-name\<close> on the two targets.
\<close>

theorem generateAnchorName_collision:
  "generateAnchorName ''user_name'' = ''--anchor-user-name''
   \<and> generateAnchorName ''user-name'' = ''--anchor-user-name''
   \<and> ''user_name'' \<noteq> ''user-name''
   \<and> anchorNameAfter
        (onLoad (examplePage [plainElement ''tip'' exampleRect,
                   plainElement ''user_name'' exampleRect,
                   plainElement ''user-name'' exampleRect]) 0 ''#user_name'') 1 =
       Some [Str ''--anchor-user-name'']
   \<and> anchorNameAfter
        (onLoad (examplePage [plainElement ''tip'' exampleRect,
                   plainElement ''user_name'' exampleRect,
                   plainElement ''user-name'' exampleRect]) 0 ''#user-name'') 2 =
       Some [Str ''--anchor-user-name'']"
  by (simp add: anchorNameAfter_def onLoad_def Let_def parseAnchorConfig_attributes
        cleanValue_examples findTarget_def getElementById_def examplePage_def
        plainElement_def getAttribute_def updateElement_def setStyle_def
        generateAnchorName_def isAlnum_def getAnchorCSS_def getPositionTryOptions_def
        fallbackPlacements_def fallbacks_def offsetOf_def)

end
